theory Spec2Isabelle
  imports Main "HOL-Library.Word" "HOL-Library.Sublist"
begin

unbundle bit_operations_syntax

section \<open>Bytes, strings and hexadecimal text\<close>

text \<open>
  Python's \<open>bytes\<close> is a list of 8-bit words. Python's \<open>str\<close> is modelled as
  \<open>string\<close>, one \<open>char\<close> per code point below 256 (ASCII and Latin-1); every string
  the verified operations inspect (hex digests, document types, titles, CATS numbers)
  is compared through \<open>str.lower()\<close>, which is modelled on exactly this range.
\<close>

type_synonym byte = "8 word"
type_synonym u32 = "32 word"

text \<open>\<open>str.lower()\<close> on one code point below 256: A-Z and the Latin-1 capitals
  (U+00C0 to U+00DE without the multiplication sign U+00D7) move up by 32.\<close>

definition lower_char :: "char \<Rightarrow> char" where
  "lower_char c =
     (let n = (of_char c :: nat)
      in if (65 \<le> n \<and> n \<le> 90) \<or> (192 \<le> n \<and> n \<le> 222 \<and> n \<noteq> 215)
         then char_of (n + 32) else c)"

definition lower :: "string \<Rightarrow> string" where
  "lower s = map lower_char s"

text \<open>One hexadecimal digit of \<open>bytes.hex()\<close> and \<open>hexdigest()\<close>: lowercase.\<close>

definition hexdigit :: "nat \<Rightarrow> char" where
  "hexdigit n = (if n < 10 then char_of (48 + n) else char_of (87 + n))"

definition hex_byte :: "byte \<Rightarrow> string" where
  "hex_byte b = [hexdigit (unat b div 16), hexdigit (unat b mod 16)]"

text \<open>\<open>bytes.hex()\<close>.\<close>

definition hex :: "byte list \<Rightarrow> string" where
  "hex bs = concat (map hex_byte bs)"

text \<open>The digit value table of \<open>bytes.fromhex\<close>: 0-9, a-f and A-F.\<close>

definition digit_value :: "char \<Rightarrow> nat option" where
  "digit_value c =
     (let n = (of_char c :: nat)
      in if 48 \<le> n \<and> n \<le> 57 then Some (n - 48)
         else if 97 \<le> n \<and> n \<le> 102 then Some (n - 87)
         else if 65 \<le> n \<and> n \<le> 70 then Some (n - 55)
         else None)"

text \<open>ASCII whitespace, skipped by \<open>bytes.fromhex\<close> between two bytes.\<close>

definition is_space :: "char \<Rightarrow> bool" where
  "is_space c = ((of_char c :: nat) \<in> {9, 10, 11, 12, 13, 32})"

text \<open>\<open>bytes.fromhex\<close>: \<open>None\<close> stands for the \<open>ValueError\<close> it raises on a
  character that is no hexadecimal digit and on a lone digit.\<close>

fun fromhex :: "string \<Rightarrow> byte list option" where
  "fromhex [] = Some []"
| "fromhex [c] = (if is_space c then Some [] else None)"
| "fromhex (c # d # rest) =
     (if is_space c then fromhex (d # rest)
      else (case (digit_value c, digit_value d) of
              (Some hi, Some lo) \<Rightarrow>
                (case fromhex rest of
                   None \<Rightarrow> None
                 | Some bs \<Rightarrow> Some (word_of_nat (16 * hi + lo) # bs))
            | _ \<Rightarrow> None))"

section \<open>SHA-256 (hashlib.sha256, FIPS 180-4)\<close>

text \<open>
  \<open>hasher.py\<close> calls \<open>hashlib.sha256\<close>, which is not part of the repository; the
  function is written out here from the standard so that the digest is a computed
  value and not an assumption.
\<close>

text \<open>
  The constants are those of sections 4.2.2 and 5.3.3 of the standard: the first 32 bits
  of the fractional parts of the cube roots of the first 64 primes, and of the square
  roots of the first 8 primes. \<open>iroot k n\<close> is the integer \<open>k\<close>-th root of
  \<open>n < 2 ^ (36 * k)\<close>, built bit by bit from the top.
\<close>

definition iroot :: "nat \<Rightarrow> int \<Rightarrow> int" where
  "iroot k n = foldl (\<lambda>r b. if (r + 2 ^ b) ^ k \<le> n then r + 2 ^ b else r) 0 (rev [0..<36])"

definition frac_cbrt :: "int \<Rightarrow> u32" where
  "frac_cbrt p = word_of_int (iroot 3 (p * 2 ^ 96))"

definition frac_sqrt :: "int \<Rightarrow> u32" where
  "frac_sqrt p = word_of_int (iroot 2 (p * 2 ^ 64))"

definition primes64 :: "int list" where
  "primes64 =
     [2, 3, 5, 7, 11, 13, 17, 19, 23, 29, 31, 37, 41, 43, 47, 53,
      59, 61, 67, 71, 73, 79, 83, 89, 97, 101, 103, 107, 109, 113, 127, 131,
      137, 139, 149, 151, 157, 163, 167, 173, 179, 181, 191, 193, 197, 199, 211, 223,
      227, 229, 233, 239, 241, 251, 257, 263, 269, 271, 277, 281, 283, 293, 307, 311]"

definition K256 :: "u32 list" where
  "K256 = map frac_cbrt primes64"

type_synonym sha_state = "u32 \<times> u32 \<times> u32 \<times> u32 \<times> u32 \<times> u32 \<times> u32 \<times> u32"

definition H256 :: sha_state where
  "H256 = (frac_sqrt 2, frac_sqrt 3, frac_sqrt 5, frac_sqrt 7,
           frac_sqrt 11, frac_sqrt 13, frac_sqrt 17, frac_sqrt 19)"

definition Ch :: "u32 \<Rightarrow> u32 \<Rightarrow> u32 \<Rightarrow> u32" where
  "Ch x y z = (x AND y) XOR (NOT x AND z)"

definition Maj :: "u32 \<Rightarrow> u32 \<Rightarrow> u32 \<Rightarrow> u32" where
  "Maj x y z = (x AND y) XOR (x AND z) XOR (y AND z)"

definition Sigma0 :: "u32 \<Rightarrow> u32" where
  "Sigma0 x = word_rotr 2 x XOR word_rotr 13 x XOR word_rotr 22 x"

definition Sigma1 :: "u32 \<Rightarrow> u32" where
  "Sigma1 x = word_rotr 6 x XOR word_rotr 11 x XOR word_rotr 25 x"

definition sigma0 :: "u32 \<Rightarrow> u32" where
  "sigma0 x = word_rotr 7 x XOR word_rotr 18 x XOR drop_bit 3 x"

definition sigma1 :: "u32 \<Rightarrow> u32" where
  "sigma1 x = word_rotr 17 x XOR word_rotr 19 x XOR drop_bit 10 x"

text \<open>Big-endian conversions between bytes and words.\<close>

definition be_word :: "byte list \<Rightarrow> u32" where
  "be_word bs = foldl (\<lambda>w b. push_bit 8 w OR ucast b) 0 bs"

definition be_bytes :: "u32 \<Rightarrow> byte list" where
  "be_bytes w = [ucast (drop_bit 24 w), ucast (drop_bit 16 w), ucast (drop_bit 8 w), ucast w]"

definition be_length :: "64 word \<Rightarrow> byte list" where
  "be_length w = map (\<lambda>i. ucast (drop_bit (8 * (7 - i)) w)) [0..<8]"

text \<open>Padding: the bit 1, zeros up to 56 modulo 64 bytes, the bit length in 64 bits.\<close>

definition sha_pad :: "byte list \<Rightarrow> byte list" where
  "sha_pad m =
     m @ [0x80] @ replicate ((119 - length m mod 64) mod 64) 0
       @ be_length (8 * word_of_nat (length m))"

definition sha_blocks :: "byte list \<Rightarrow> byte list list" where
  "sha_blocks p = map (\<lambda>i. take 64 (drop (64 * i) p)) [0..<length p div 64]"

text \<open>The message schedule: 16 words of the block, then 48 derived words.\<close>

definition schedule_step :: "u32 list \<Rightarrow> nat \<Rightarrow> u32 list" where
  "schedule_step w t =
     w @ [sigma1 (w ! (t - 2)) + w ! (t - 7) + sigma0 (w ! (t - 15)) + w ! (t - 16)]"

definition schedule :: "byte list \<Rightarrow> u32 list" where
  "schedule block =
     foldl schedule_step
       (map (\<lambda>i. be_word (take 4 (drop (4 * i) block))) [0..<16]) [16..<64]"

fun sha_round :: "sha_state \<Rightarrow> u32 \<times> u32 \<Rightarrow> sha_state" where
  "sha_round (a, b, c, d, e, f, g, h) (k, w) =
     (let T1 = h + Sigma1 e + Ch e f g + k + w;
          T2 = Sigma0 a + Maj a b c
      in (T1 + T2, a, b, c, d + T1, e, f, g))"

fun sha_add :: "sha_state \<Rightarrow> sha_state \<Rightarrow> sha_state" where
  "sha_add (a, b, c, d, e, f, g, h) (a', b', c', d', e', f', g', h') =
     (a + a', b + b', c + c', d + d', e + e', f + f', g + g', h + h')"

definition sha_compress :: "sha_state \<Rightarrow> byte list \<Rightarrow> sha_state" where
  "sha_compress st block = sha_add st (foldl sha_round st (zip K256 (schedule block)))"

fun sha_output :: "sha_state \<Rightarrow> byte list" where
  "sha_output (a, b, c, d, e, f, g, h) = concat (map be_bytes [a, b, c, d, e, f, g, h])"

text \<open>\<open>hashlib.sha256(); update(content); digest()\<close>.\<close>

definition sha256 :: "byte list \<Rightarrow> byte list" where
  "sha256 m = sha_output (foldl sha_compress H256 (sha_blocks (sha_pad m)))"

section \<open>services/hasher.py\<close>

definition compute_sha256_bytes :: "byte list \<Rightarrow> string" where
  "compute_sha256_bytes content = hex (sha256 content)"

definition verify_hash :: "byte list \<Rightarrow> string \<Rightarrow> bool" where
  "verify_hash content expected_hash =
     (let computed = compute_sha256_bytes content
      in lower computed = lower expected_hash)"

section \<open>models/document.py\<close>

text \<open>The pydantic models; field names carry the model's initials, since several models
  share a field name.\<close>

record DocumentMetadata =
  dm_hash :: string
  dm_document_type :: string
  dm_cats_number :: "string option"
  dm_ipfs_cid :: string
  dm_title :: string
  dm_timestamp :: int
  dm_page_number :: int
  dm_is_modified :: bool
  dm_modification_count :: int
  dm_registrar :: string
  dm_account_pubkey :: string

record VerificationResult =
  vr_verified :: bool
  vr_hash :: string
  vr_message :: string
  vr_document :: "DocumentMetadata option"
  vr_solscan_url :: "string option"

record DocumentSearchResult =
  sr_documents :: "DocumentMetadata list"
  sr_total :: int
  sr_page :: int
  sr_limit :: int
  sr_has_more :: bool

record CATSRecord =
  cr_cats_id :: string
  cr_property_name :: "string option"
  cr_document_count :: int
  cr_document_hashes :: "string list"

record DocumentRegistration =
  reg_hash :: string
  reg_document_type :: string
  reg_cats_number :: "string option"
  reg_ipfs_cid :: string
  reg_page_number :: int
  reg_title :: string

section \<open>The ledger as the client sees it\<close>

text \<open>A public key is modelled by its base58 text, so \<open>str(pubkey)\<close> is the identity.\<close>

type_synonym pubkey = string

text \<open>The exceptions that travel through the backend. \<open>RPCException\<close> is whatever the
  RPC layer raises when the cluster cannot be reached.\<close>

datatype exn =
    RuntimeError
  | ValueError
  | TypeError
  | AttributeError string
  | AccountDoesNotExistError
  | RPCException string
  | DuplicateRegistration

text \<open>The on-chain \<open>DocumentRecord\<close> account, as anchorpy decodes it (\<open>a.account\<close>).\<close>

record DocumentRecord =
  hash :: "byte list"
  document_type :: string
  cats_number :: "string option"
  ipfs_cid :: string
  title :: string
  timestamp :: int
  page_number :: int
  is_modified :: bool
  modification_count :: int
  registrar :: pubkey

text \<open>
  The state of the cluster: the \<open>DocumentRecord\<close> accounts in the order a scan returns
  them, the counter of the \<open>Registry\<close> account (\<open>None\<close> before it is created), the
  exception every RPC call raises while the cluster is unreachable, the clock that
  stamps new records, and the signature the next transaction will carry.
\<close>

record ledger =
  accounts :: "(pubkey \<times> DocumentRecord) list"
  registry_document_count :: "int option"
  outage :: "exn option"
  clock :: int
  next_signature :: string

text \<open>\<open>program.account["DocumentRecord"].fetch(pda)\<close>: raises when the cluster is
  unreachable and when no account lives at the address.\<close>

definition account_fetch :: "ledger \<Rightarrow> pubkey \<Rightarrow> exn + DocumentRecord" where
  "account_fetch L pda =
     (case outage L of
        Some e \<Rightarrow> Inl e
      | None \<Rightarrow> (case map_of (accounts L) pda of
                   None \<Rightarrow> Inl AccountDoesNotExistError
                 | Some a \<Rightarrow> Inr a))"

text \<open>\<open>program.account["DocumentRecord"].all()\<close>.\<close>

definition account_all :: "ledger \<Rightarrow> exn + (pubkey \<times> DocumentRecord) list" where
  "account_all L = (case outage L of Some e \<Rightarrow> Inl e | None \<Rightarrow> Inr (accounts L))"

text \<open>\<open>program.account["Registry"].fetch(registry_pda)\<close>, read for its counter.\<close>

definition registry_fetch :: "ledger \<Rightarrow> exn + int" where
  "registry_fetch L =
     (case outage L of
        Some e \<Rightarrow> Inl e
      | None \<Rightarrow> (case registry_document_count L of
                   None \<Rightarrow> Inl AccountDoesNotExistError
                 | Some n \<Rightarrow> Inr n))"

section \<open>Python helpers\<close>

text \<open>Truth value of an \<open>Optional[str]\<close>: \<open>None\<close> and the empty string are false.\<close>

fun truthy :: "string option \<Rightarrow> bool" where
  "truthy None = False"
| "truthy (Some s) = (s \<noteq> [])"

text \<open>\<open>q in s\<close> on strings.\<close>

fun contains :: "string \<Rightarrow> string \<Rightarrow> bool" where
  "contains [] q = (q = [])"
| "contains (c # s) q = (prefix q (c # s) \<or> contains s q)"

text \<open>\<open>xs[start:stop]\<close>: a negative index counts from the end, and both ends are
  clipped to the list.\<close>

definition slice_index :: "nat \<Rightarrow> int \<Rightarrow> nat" where
  "slice_index n i = (if i < 0 then nat (max 0 (int n + i)) else min n (nat i))"

definition py_slice :: "'a list \<Rightarrow> int \<Rightarrow> int \<Rightarrow> 'a list" where
  "py_slice xs start stop =
     (let s = slice_index (length xs) start; e = slice_index (length xs) stop
      in take (e - s) (drop s xs))"

definition ascii_bytes :: "string \<Rightarrow> byte list" where
  "ascii_bytes s = map (\<lambda>c. word_of_nat (of_char c)) s"

section \<open>services/solana_client.py\<close>

record TransactionResult =
  signature :: string
  document_pubkey :: string

record PaginatedResult =
  items :: "DocumentMetadata list"
  total :: int

record RegistryStats =
  rs_document_count :: int
  rs_modified_count :: int
  rs_unique_cats :: int
  rs_document_types :: "string \<rightharpoonup> int"

text \<open>
  The client object. \<open>HAS_SOLANA\<close> is the module flag set by the import of the Solana
  libraries; \<open>find_program_address\<close> is \<open>Pubkey.find_program_address\<close> of the solders
  library, a parameter here (it can raise, for a seed longer than 32 bytes);
  \<open>idl_error\<close> is the exception, if any, that loading the program's IDL raises in
  \<open>_get_program\<close>.
\<close>

record SolanaClient =
  network :: string
  HAS_SOLANA :: bool
  program_id :: pubkey
  keypair_pubkey :: pubkey
  find_program_address :: "byte list list \<Rightarrow> pubkey \<Rightarrow> exn + (pubkey \<times> nat)"
  idl_error :: "exn option"

definition get_program :: "SolanaClient \<Rightarrow> exn + unit" where
  "get_program c =
     (if \<not> HAS_SOLANA c then Inl RuntimeError
      else (case idl_error c of Some e \<Rightarrow> Inl e | None \<Rightarrow> Inr ()))"

definition get_registry_pda :: "SolanaClient \<Rightarrow> exn + pubkey" where
  "get_registry_pda c =
     (case find_program_address c [ascii_bytes ''registry''] (program_id c) of
        Inl e \<Rightarrow> Inl e
      | Inr (pda, bump) \<Rightarrow> Inr pda)"

definition get_document_pda :: "SolanaClient \<Rightarrow> byte list \<Rightarrow> exn + pubkey" where
  "get_document_pda c hash_bytes =
     (case find_program_address c [ascii_bytes ''document'', hash_bytes] (program_id c) of
        Inl e \<Rightarrow> Inl e
      | Inr (pda, bump) \<Rightarrow> Inr pda)"

definition get_solscan_url :: "SolanaClient \<Rightarrow> string \<Rightarrow> string" where
  "get_solscan_url c pk =
     (let cluster = (if network c = ''mainnet'' then [] else ''?cluster=devnet'')
      in ''https://solscan.io/account/'' @ pk @ cluster)"

text \<open>The \<open>DocumentMetadata(...)\<close> built from an account and its address, the same
  expression in \<open>get_document_by_hash\<close> and in \<open>search_documents\<close>.\<close>

definition document_metadata :: "pubkey \<Rightarrow> DocumentRecord \<Rightarrow> DocumentMetadata" where
  "document_metadata pk a =
     \<lparr>dm_hash = hex (hash a),
      dm_document_type = document_type a,
      dm_cats_number = cats_number a,
      dm_ipfs_cid = ipfs_cid a,
      dm_title = title a,
      dm_timestamp = timestamp a,
      dm_page_number = page_number a,
      dm_is_modified = is_modified a,
      dm_modification_count = modification_count a,
      dm_registrar = registrar a,
      dm_account_pubkey = pk\<rparr>"

text \<open>\<open>_get_program\<close> and \<open>_get_document_pda\<close> run before the \<open>try\<close>, so what they
  raise leaves the function; the bare \<open>except\<close> turns anything the fetch raises into
  \<open>None\<close>.\<close>

definition get_document_by_hash ::
  "SolanaClient \<Rightarrow> ledger \<Rightarrow> byte list \<Rightarrow> exn + DocumentMetadata option" where
  "get_document_by_hash c L hash_bytes =
     (if \<not> HAS_SOLANA c then Inr None
      else (case get_program c of
              Inl e \<Rightarrow> Inl e
            | Inr program \<Rightarrow>
                (case get_document_pda c hash_bytes of
                   Inl e \<Rightarrow> Inl e
                 | Inr pda \<Rightarrow>
                     (case account_fetch L pda of
                        Inr account \<Rightarrow> Inr (Some (document_metadata pda account))
                      | Inl e \<Rightarrow> Inr None))))"

text \<open>The two list comprehensions of \<open>search_documents\<close>.\<close>

definition type_filter ::
  "string option \<Rightarrow> (pubkey \<times> DocumentRecord) list \<Rightarrow> (pubkey \<times> DocumentRecord) list" where
  "type_filter dt all_accounts =
     (if truthy dt
      then filter (\<lambda>a. lower (document_type (snd a)) = lower (the dt)) all_accounts
      else all_accounts)"

definition query_filter ::
  "string option \<Rightarrow> (pubkey \<times> DocumentRecord) list \<Rightarrow> (pubkey \<times> DocumentRecord) list" where
  "query_filter search_query all_accounts =
     (if truthy search_query
      then (let query = lower (the search_query)
            in filter (\<lambda>a. contains (lower (title (snd a))) query
                          \<or> (truthy (cats_number (snd a))
                              \<and> contains (lower (the (cats_number (snd a)))) query))
                 all_accounts)
      else all_accounts)"

definition search_documents ::
  "SolanaClient \<Rightarrow> ledger \<Rightarrow> int \<Rightarrow> int \<Rightarrow> string option \<Rightarrow> string option
     \<Rightarrow> exn + PaginatedResult" where
  "search_documents c L page limit dt search_query =
     (if \<not> HAS_SOLANA c then Inr \<lparr>items = [], total = 0\<rparr>
      else (case get_program c of
              Inl e \<Rightarrow> Inl e
            | Inr program \<Rightarrow>
                (case account_all L of
                   Inl e \<Rightarrow> Inr \<lparr>items = [], total = 0\<rparr>
                 | Inr all_accounts \<Rightarrow>
                     (let filtered = query_filter search_query (type_filter dt all_accounts);
                          start = (page - 1) * limit
                      in Inr \<lparr>items = map (\<lambda>a. document_metadata (fst a) (snd a))
                                         (py_slice filtered start (start + limit)),
                              total = int (length filtered)\<rparr>))))"

text \<open>The dictionary \<open>property_map\<close>, in insertion order, and the \<open>next(..., default)\<close>
  over it.\<close>

definition property_map :: "(string \<times> string) list" where
  "property_map =
     [(''CATS-ZR'', ''Zorro Ranch''), (''CATS-LSJ'', ''Little St. James''),
      (''CATS-NYC'', ''New York'')]"

fun resolve_property :: "(string \<times> string) list \<Rightarrow> string \<Rightarrow> string" where
  "resolve_property [] cats_id = ''Unknown Property''"
| "resolve_property ((k, v) # rest) cats_id =
     (if prefix k cats_id then v else resolve_property rest cats_id)"

definition get_cats_record :: "SolanaClient \<Rightarrow> ledger \<Rightarrow> string \<Rightarrow> exn + CATSRecord option" where
  "get_cats_record c L cats_id =
     (if \<not> HAS_SOLANA c then Inr None
      else (case get_program c of
              Inl e \<Rightarrow> Inl e
            | Inr program \<Rightarrow>
                (case account_all L of
                   Inl e \<Rightarrow> Inr None
                 | Inr all_accounts \<Rightarrow>
                     (let matching = filter (\<lambda>a. cats_number (snd a) = Some cats_id) all_accounts
                      in if matching = [] then Inr None
                         else Inr (Some
                           \<lparr>cr_cats_id = cats_id,
                            cr_property_name = Some (resolve_property property_map cats_id),
                            cr_document_count = int (length matching),
                            cr_document_hashes = map (\<lambda>a. hex (hash (snd a))) matching\<rparr>)))))"

text \<open>The tally loop of \<open>get_registry_stats\<close>:
  \<open>dt_map[t] = dt_map.get(t, 0) + 1\<close>.\<close>

definition tally :: "(string \<rightharpoonup> int) \<Rightarrow> string \<Rightarrow> (string \<rightharpoonup> int)" where
  "tally m t = m(t \<mapsto> (case m t of None \<Rightarrow> 0 | Some n \<Rightarrow> n) + 1)"

definition zero_stats :: RegistryStats where
  "zero_stats = \<lparr>rs_document_count = 0, rs_modified_count = 0, rs_unique_cats = 0,
                 rs_document_types = Map.empty\<rparr>"

definition get_registry_stats :: "SolanaClient \<Rightarrow> ledger \<Rightarrow> exn + RegistryStats" where
  "get_registry_stats c L =
     (if \<not> HAS_SOLANA c then Inr zero_stats
      else (case get_program c of
              Inl e \<Rightarrow> Inl e
            | Inr program \<Rightarrow>
                (case get_registry_pda c of
                   Inl e \<Rightarrow> Inr zero_stats
                 | Inr registry_pda \<Rightarrow>
                     (case registry_fetch L of
                        Inl e \<Rightarrow> Inr zero_stats
                      | Inr count \<Rightarrow>
                          (case account_all L of
                             Inl e \<Rightarrow> Inr zero_stats
                           | Inr all_accounts \<Rightarrow>
                               Inr \<lparr>rs_document_count = count,
                                    rs_modified_count =
                                      int (length (filter (\<lambda>a. is_modified (snd a)) all_accounts)),
                                    rs_unique_cats =
                                      int (length (remdups (map (\<lambda>a. cats_number (snd a))
                                        (filter (\<lambda>a. truthy (cats_number (snd a))) all_accounts)))),
                                    rs_document_types =
                                      foldl tally Map.empty
                                        (map (\<lambda>a. document_type (snd a)) all_accounts)\<rparr>)))))"

text \<open>
  Modelled from the spec: the \<open>register_document\<close> instruction of the on-chain program,
  which the client reaches through \<open>program.methods.register_document(...).rpc()\<close> and
  whose source is not among the files. Section 4.3 of the specification: attempt an
  atomic write at the derived address guarded by "only if absent"; if the address is
  already occupied, fail with a Duplicate error; on success increment the Registry's
  document count and return the new record with its ledger-assigned timestamp. A new
  record starts unmodified with a modification count of 0 (section 3), and its registrar
  is the authority that signed.
\<close>

definition program_register_document ::
  "ledger \<Rightarrow> pubkey \<Rightarrow> pubkey \<Rightarrow> byte list \<Rightarrow> string \<Rightarrow> string option \<Rightarrow> string \<Rightarrow> int
     \<Rightarrow> string \<Rightarrow> (exn + string) \<times> ledger" where
  "program_register_document L document authority h dt cn cid pn t =
     (case outage L of
        Some e \<Rightarrow> (Inl e, L)
      | None \<Rightarrow>
          (case map_of (accounts L) document of
             Some existing \<Rightarrow> (Inl DuplicateRegistration, L)
           | None \<Rightarrow>
               (Inr (next_signature L),
                L\<lparr>accounts := accounts L @
                     [(document,
                       \<lparr>hash = h, document_type = dt, cats_number = cn, ipfs_cid = cid,
                        title = t, timestamp = clock L, page_number = pn,
                        is_modified = False, modification_count = 0,
                        registrar = authority\<rparr>)],
                  registry_document_count :=
                    map_option (\<lambda>n. n + 1) (registry_document_count L)\<rparr>)))"

text \<open>\<open>SolanaClient.register_document\<close>: nothing is caught, so every exception of the
  program handle, of the address derivation and of the transaction leaves the method.\<close>

definition register_document ::
  "SolanaClient \<Rightarrow> ledger \<Rightarrow> byte list \<Rightarrow> string \<Rightarrow> string option \<Rightarrow> string \<Rightarrow> int \<Rightarrow> string
     \<Rightarrow> (exn + TransactionResult) \<times> ledger" where
  "register_document c L h dt cn cid pn t =
     (case get_program c of
        Inl e \<Rightarrow> (Inl e, L)
      | Inr program \<Rightarrow>
          (case get_registry_pda c of
             Inl e \<Rightarrow> (Inl e, L)
           | Inr registry_pda \<Rightarrow>
               (case get_document_pda c h of
                  Inl e \<Rightarrow> (Inl e, L)
                | Inr document_pda \<Rightarrow>
                    (case program_register_document L document_pda (keypair_pubkey c)
                            h dt cn cid pn t of
                       (Inl e, L') \<Rightarrow> (Inl e, L')
                     | (Inr tx, L') \<Rightarrow>
                         (Inr \<lparr>signature = tx, document_pubkey = document_pda\<rparr>, L')))))"

text \<open>The attributes a \<open>SolanaClient\<close> object has: the methods of the class and the
  fields \<open>__init__\<close> sets. Looking up any other name raises \<open>AttributeError\<close>.\<close>

definition SolanaClient_attributes :: "string list" where
  "SolanaClient_attributes =
     [''__init__'', ''_get_program'', ''_get_registry_pda'', ''_get_document_pda'',
      ''get_solscan_url'', ''get_document_by_hash'', ''search_documents'',
      ''get_cats_record'', ''register_document'', ''get_registry_stats'',
      ''network'', ''rpc_url'', ''program'', ''client'', ''program_id'', ''keypair'']"

definition getattr :: "string \<Rightarrow> exn + string" where
  "getattr name =
     (if name \<in> set SolanaClient_attributes then Inr name else Inl (AttributeError name))"

section \<open>main.py\<close>

text \<open>An \<open>HTTPException(status_code, detail)\<close>; the detail is a fixed text or the
  f-string of a prefix and \<open>str(e)\<close>. \<open>RequestValidationError\<close> is the 422 answer of the
  \<open>Query(ge=..., le=...)\<close> validation, given before the endpoint's body runs.\<close>

datatype detail = Text string | Failed string exn

datatype http_exception = HTTPException nat detail | RequestValidationError

definition not_found_message :: string where
  "not_found_message = ''Document not found in Truth Chain registry''"

text \<open>The two messages begin with a symbol outside Latin-1 (a warning sign, a check
  mark), kept here as its UTF-8 bytes.\<close>

definition modified_message :: string where
  "modified_message =
     [CHR 0xE2, CHR 0x9A, CHR 0xA0, CHR 0xEF, CHR 0xB8, CHR 0x8F] @
     '' Document found but has been flagged as MODIFIED (stealth redaction detected)''"

definition verified_message :: string where
  "verified_message =
     [CHR 0xE2, CHR 0x9C, CHR 0x93] @ '' Document verified - matches original DOJ release''"

definition verify_document ::
  "SolanaClient \<Rightarrow> ledger \<Rightarrow> string \<Rightarrow> byte list \<Rightarrow> http_exception + VerificationResult" where
  "verify_document c L filename content =
     (if \<not> suffix ''.pdf'' (lower filename)
      then Inl (HTTPException 400 (Text ''Only PDF files are accepted''))
      else (let hash_hex = compute_sha256_bytes content
            in case fromhex hash_hex of
                 None \<Rightarrow> Inl (HTTPException 500 (Failed ''Verification failed: '' ValueError))
               | Some hash_bytes \<Rightarrow>
                   (case get_document_by_hash c L hash_bytes of
                      Inl e \<Rightarrow> Inl (HTTPException 500 (Failed ''Verification failed: '' e))
                    | Inr None \<Rightarrow>
                        Inr \<lparr>vr_verified = False, vr_hash = hash_hex,
                             vr_message = not_found_message,
                             vr_document = None, vr_solscan_url = None\<rparr>
                    | Inr (Some document_record) \<Rightarrow>
                        (if dm_is_modified document_record
                         then Inr \<lparr>vr_verified = True, vr_hash = hash_hex,
                                   vr_message = modified_message,
                                   vr_document = Some document_record,
                                   vr_solscan_url = Some (get_solscan_url c
                                     (dm_account_pubkey document_record))\<rparr>
                         else Inr \<lparr>vr_verified = True, vr_hash = hash_hex,
                                   vr_message = verified_message,
                                   vr_document = Some document_record,
                                   vr_solscan_url = Some (get_solscan_url c
                                     (dm_account_pubkey document_record))\<rparr>))))"

definition list_documents ::
  "SolanaClient \<Rightarrow> ledger \<Rightarrow> int \<Rightarrow> int \<Rightarrow> string option \<Rightarrow> string option
     \<Rightarrow> http_exception + DocumentSearchResult" where
  "list_documents c L page limit dt search =
     (if page < 1 \<or> limit < 1 \<or> 100 < limit then Inl RequestValidationError
      else (case search_documents c L page limit dt search of
              Inl e \<Rightarrow> Inl (HTTPException 500 (Failed ''Search failed: '' e))
            | Inr documents \<Rightarrow>
                Inr \<lparr>sr_documents = items documents, sr_total = total documents,
                     sr_page = page, sr_limit = limit,
                     sr_has_more = (total documents > page * limit)\<rparr>))"

definition get_document ::
  "SolanaClient \<Rightarrow> ledger \<Rightarrow> string \<Rightarrow> http_exception + DocumentMetadata" where
  "get_document c L hash_hex =
     (case fromhex hash_hex of
        None \<Rightarrow> Inl (HTTPException 400 (Text ''Invalid hash format''))
      | Some hash_bytes \<Rightarrow>
          (case get_document_by_hash c L hash_bytes of
             Inl e \<Rightarrow> Inl (HTTPException 500 (Failed ''Fetch failed: '' e))
           | Inr None \<Rightarrow> Inl (HTTPException 404 (Text ''Document not found''))
           | Inr (Some document) \<Rightarrow> Inr document))"

definition get_cats_record_endpoint ::
  "SolanaClient \<Rightarrow> ledger \<Rightarrow> string \<Rightarrow> http_exception + CATSRecord" where
  "get_cats_record_endpoint c L cats_id =
     (case get_cats_record c L cats_id of
        Inl e \<Rightarrow> Inl (HTTPException 500 (Failed ''CATS lookup failed: '' e))
      | Inr None \<Rightarrow> Inl (HTTPException 404 (Text ''CATS record not found''))
      | Inr (Some record) \<Rightarrow> Inr record)"

definition get_stats :: "SolanaClient \<Rightarrow> ledger \<Rightarrow> http_exception + RegistryStats" where
  "get_stats c L =
     (case get_registry_stats c L of
        Inl e \<Rightarrow> Inl (HTTPException 500 (Failed ''Stats fetch failed: '' e))
      | Inr stats \<Rightarrow> Inr stats)"

record FlagRequest =
  original_hash :: string
  new_hash :: string
  evidence_description :: string

record Receipt =
  success :: bool
  message :: string
  transaction :: string
  solscan_url :: string
  account :: "string option"

text \<open>
  \<open>flag_modification\<close> decodes the two hashes and then calls
  \<open>solana_client.flag_document_modification(original_hash=..., new_hash=..., evidence=...)\<close>.
  The attribute is looked up on the client object; were a name of the class found, the
  call with these three keywords would raise \<open>TypeError\<close>, since no method of the
  class takes them. Everything raised inside the \<open>try\<close> becomes the answer 500. The
  ledger is returned next to the answer, to show what the call wrote.
\<close>

definition flag_modification ::
  "SolanaClient \<Rightarrow> ledger \<Rightarrow> FlagRequest \<Rightarrow> (http_exception + Receipt) \<times> ledger" where
  "flag_modification c L request =
     (case fromhex (original_hash request) of
        None \<Rightarrow> (Inl (HTTPException 500 (Failed ''Flagging failed: '' ValueError)), L)
      | Some original_bytes \<Rightarrow>
          (case fromhex (new_hash request) of
             None \<Rightarrow> (Inl (HTTPException 500 (Failed ''Flagging failed: '' ValueError)), L)
           | Some new_bytes \<Rightarrow>
               (case getattr ''flag_document_modification'' of
                  Inl e \<Rightarrow> (Inl (HTTPException 500 (Failed ''Flagging failed: '' e)), L)
                | Inr method \<Rightarrow>
                    (Inl (HTTPException 500 (Failed ''Flagging failed: '' TypeError)), L))))"

definition register_document_endpoint ::
  "SolanaClient \<Rightarrow> ledger \<Rightarrow> DocumentRegistration \<Rightarrow> (http_exception + Receipt) \<times> ledger" where
  "register_document_endpoint c L registration =
     (case fromhex (reg_hash registration) of
        None \<Rightarrow> (Inl (HTTPException 500 (Failed ''Registration failed: '' ValueError)), L)
      | Some hash_bytes \<Rightarrow>
          (case register_document c L hash_bytes (reg_document_type registration)
                  (reg_cats_number registration) (reg_ipfs_cid registration)
                  (reg_page_number registration) (reg_title registration) of
             (Inl e, L') \<Rightarrow> (Inl (HTTPException 500 (Failed ''Registration failed: '' e)), L')
           | (Inr result, L') \<Rightarrow>
               (Inr \<lparr>success = True, message = ''Document registered on Truth Chain'',
                     transaction = signature result,
                     solscan_url = ''https://solscan.io/tx/'' @ signature result,
                     account = Some (document_pubkey result)\<rparr>, L')))"

section \<open>Notions of the specification\<close>

text \<open>A character of a lowercase hexadecimal text: 0-9 or a-f.\<close>

definition lower_hex_char :: "char \<Rightarrow> bool" where
  "lower_hex_char c =
     (let n = (of_char c :: nat) in (48 \<le> n \<and> n \<le> 57) \<or> (97 \<le> n \<and> n \<le> 102))"

text \<open>Two strings are equal up to case: the same length, and at each position two
  characters with the same lowercase form.\<close>

definition same_up_to_case :: "string \<Rightarrow> string \<Rightarrow> bool" where
  "same_up_to_case s t = list_all2 (\<lambda>c d. lower_char c = lower_char d) s t"

text \<open>The uppercase form of an ASCII text (a-z move down by 32), as \<open>str.upper()\<close>
  gives it for a hexadecimal digest.\<close>

definition upper_char :: "char \<Rightarrow> char" where
  "upper_char c =
     (let n = (of_char c :: nat) in if 97 \<le> n \<and> n \<le> 122 then char_of (n - 32) else c)"

definition upper :: "string \<Rightarrow> string" where
  "upper s = map upper_char s"





text \<open>The slice \<open>[a, b)\<close> of a list clipped to its bounds: the elements at the
  positions \<open>a \<le> i < b\<close> that exist, in order.\<close>

definition clipped_slice :: "'a list \<Rightarrow> nat \<Rightarrow> nat \<Rightarrow> 'a list" where
  "clipped_slice xs a b = map (\<lambda>i. xs ! i) [a..<min b (length xs)]"

text \<open>The filtered record set of a search, as \<open>search_documents\<close> computes it.\<close>

definition filtered_accounts ::
  "ledger \<Rightarrow> string option \<Rightarrow> string option \<Rightarrow> (pubkey \<times> DocumentRecord) list" where
  "filtered_accounts L dt q = query_filter q (type_filter dt (accounts L))"

section \<open>Sample values\<close>

text \<open>A client on devnet whose address derivation is the hexadecimal text of the
  joined seeds, and records and ledgers to run the operations on.\<close>

definition sample_client :: SolanaClient where
  "sample_client =
     \<lparr>network = ''devnet'', HAS_SOLANA = True,
      program_id = ''7r98Fey4c7KijkFT2VtjrdTyYvpnrACN3XJgnQAd4Rnf'',
      keypair_pubkey = ''authority'',
      find_program_address = (\<lambda>seeds pid. Inr (hex (concat seeds), 255)),
      idl_error = None\<rparr>"

definition sample_record ::
  "byte list \<Rightarrow> string \<Rightarrow> string option \<Rightarrow> string \<Rightarrow> bool \<Rightarrow> DocumentRecord" where
  "sample_record h dt cn t m =
     \<lparr>hash = h, document_type = dt, cats_number = cn, ipfs_cid = ''cid'', title = t,
      timestamp = 1, page_number = 1, is_modified = m,
      modification_count = (if m then 1 else 0), registrar = ''authority''\<rparr>"

definition sample_ledger :: "(pubkey \<times> DocumentRecord) list \<Rightarrow> exn option \<Rightarrow> ledger" where
  "sample_ledger accs out =
     \<lparr>accounts = accs, registry_document_count = Some (int (length accs)), outage = out,
      clock = 2, next_signature = ''sig''\<rparr>"

text \<open>The address the sample client derives for a hash.\<close>

definition sample_pda :: "byte list \<Rightarrow> pubkey" where
  "sample_pda h = hex (ascii_bytes ''document'' @ h)"

text \<open>Twenty-five records with the hashes 0 to 24, all depositions.\<close>

definition sample_25 :: "(pubkey \<times> DocumentRecord) list" where
  "sample_25 =
     map (\<lambda>i. (sample_pda [word_of_nat i],
               sample_record [word_of_nat i] ''Deposition'' None ''Doe v. State'' False))
       [0..<25]"

section \<open>Hexadecimal text and the digest\<close>

lemma length_be_bytes: "length (be_bytes w) = 4"
  by (simp add: be_bytes_def)

lemma length_sha_output: "length (sha_output st) = 32"
  by (cases st) (auto simp: length_be_bytes)

lemma length_sha256: "length (sha256 m) = 32"
  by (simp add: sha256_def length_sha_output)

lemma length_hex: "length (hex bs) = 2 * length bs"
  by (induction bs) (simp_all add: hex_def hex_byte_def)

lemma lower_hex_hexdigit: "n < 16 \<Longrightarrow> lower_hex_char (hexdigit n)"
  by (auto simp: lower_hex_char_def hexdigit_def)

lemma unat_byte_div16: "unat (b :: byte) div 16 < 16"
proof -
  have "unat b < 256" using unsigned_less [of b, where ?'a = nat] by simp
  then show ?thesis by simp
qed

lemma lower_hex_hex: "list_all lower_hex_char (hex bs)"
  by (induction bs) (simp_all add: hex_def hex_byte_def lower_hex_hexdigit unat_byte_div16)

lemma lower_char_lower_hex: "lower_hex_char c \<Longrightarrow> lower_char c = c"
  by (auto simp: lower_hex_char_def lower_char_def Let_def)

lemma lower_lower_hex: "list_all lower_hex_char s \<Longrightarrow> lower s = s"
  by (induction s) (simp_all add: lower_def lower_char_lower_hex)

lemma lower_hex: "lower (hex bs) = hex bs"
  by (rule lower_lower_hex) (rule lower_hex_hex)

lemma digit_value_hexdigit: "n < 16 \<Longrightarrow> digit_value (hexdigit n) = Some n"
  by (auto simp: digit_value_def hexdigit_def)

lemma not_space_hexdigit: "n < 16 \<Longrightarrow> \<not> is_space (hexdigit n)"
  by (auto simp: is_space_def hexdigit_def)

lemma fromhex_hex: "fromhex (hex bs) = Some bs"
  by (induction bs)
    (simp_all add: hex_def hex_byte_def digit_value_hexdigit not_space_hexdigit unat_byte_div16)

lemma map_eq_list_all2: "(map f s = map f t) = list_all2 (\<lambda>x y. f x = f y) s t"
proof (induction s arbitrary: t)
  case Nil
  then show ?case by simp
next
  case (Cons x s)
  then show ?case by (cases t) simp_all
qed

lemma lower_eq_same: "(lower s = lower t) = same_up_to_case s t"
  by (simp add: lower_def same_up_to_case_def map_eq_list_all2)

lemma lower_upper_char: "lower_char (upper_char c) = lower_char c"
  by (auto simp: lower_char_def upper_char_def Let_def)

lemma lower_upper: "lower (upper s) = lower s"
  by (simp add: lower_def upper_def lower_upper_char)

text \<open>The digest of the empty input, computed by the model: the value \<open>hashlib\<close>
  gives.\<close>

lemma sha256_empty:
  "compute_sha256_bytes [] =
     ''e3b0c44298fc1c149afbf4c8996fb92427ae41e4649b934ca495991b7852b855''"
  by code_simp

section \<open>Filtering and slicing\<close>

lemma slice_nat:
  "take (min (length xs) b - min (length xs) a) (drop (min (length xs) a) xs)
     = map (\<lambda>i. xs ! i) [a..<min b (length xs)]"
proof (cases "length xs \<le> a")
  case True
  then show ?thesis by simp
next
  case False
  define m where "m = min b (length xs)"
  have m: "m \<le> length xs" by (simp add: m_def)
  have "take (m - a) (drop a xs) = map (\<lambda>i. xs ! i) [a..<m]"
  proof (rule nth_equalityI)
    show "length (take (m - a) (drop a xs)) = length (map (\<lambda>i. xs ! i) [a..<m])"
      using m by simp
  next
    fix i assume "i < length (take (m - a) (drop a xs))"
    then have i: "i < m - a" by simp
    then have "a + i < length xs" using m by simp
    with i show "take (m - a) (drop a xs) ! i = map (\<lambda>i. xs ! i) [a..<m] ! i"
      by simp
  qed
  with False show ?thesis by (simp add: m_def min.commute)
qed

lemma py_slice_page:
  assumes "1 \<le> page" "1 \<le> limit"
  shows "py_slice xs ((page - 1) * limit) ((page - 1) * limit + limit)
           = clipped_slice xs (nat ((page - 1) * limit)) (nat (page * limit))"
proof -
  have start: "0 \<le> (page - 1) * limit" using assms by simp
  have stop: "(page - 1) * limit + limit = page * limit" by (simp add: algebra_simps)
  have "0 \<le> page * limit" using assms by simp
  with start show ?thesis
    unfolding py_slice_def clipped_slice_def slice_index_def Let_def stop
    using slice_nat [of xs "nat (page * limit)" "nat ((page - 1) * limit)"]
    by (simp add: not_less)
qed










lemma search_documents_reads:
  assumes "HAS_SOLANA c" "idl_error c = None" "outage L = None"
  shows "search_documents c L page limit dt q =
           Inr \<lparr>items = map (\<lambda>a. document_metadata (fst a) (snd a))
                           (py_slice (filtered_accounts L dt q) ((page - 1) * limit)
                              ((page - 1) * limit + limit)),
                total = int (length (filtered_accounts L dt q))\<rparr>"
  using assms
  by (simp add: search_documents_def get_program_def account_all_def filtered_accounts_def Let_def)


lemma get_document_by_hash_reads:
  assumes "HAS_SOLANA c" "idl_error c = None" "outage L = None"
    and "get_document_pda c h = Inr pda"
  shows "get_document_by_hash c L h =
           Inr (map_option (document_metadata pda) (map_of (accounts L) pda))"
  using assms
  by (simp add: get_document_by_hash_def get_program_def account_fetch_def split: option.splits)

lemma messages_distinct:
  "verified_message \<noteq> modified_message"
  "not_found_message \<noteq> verified_message"
  "not_found_message \<noteq> modified_message"
  by (simp_all add: verified_message_def modified_message_def not_found_message_def)

lemma pdf_name: "suffix ''.pdf'' (lower ''doe.pdf'')"
  by code_simp

lemma sample_document_pda: "get_document_pda sample_client h = Inr (sample_pda h)"
  by (simp add: get_document_pda_def sample_client_def sample_pda_def)

lemma get_cats_record_reads:
  assumes "HAS_SOLANA c" "idl_error c = None" "outage L = None"
  shows "get_cats_record c L cats_id =
           (let matching = filter (\<lambda>a. cats_number (snd a) = Some cats_id) (accounts L)
            in if matching = [] then Inr None
               else Inr (Some
                 \<lparr>cr_cats_id = cats_id,
                  cr_property_name = Some (resolve_property property_map cats_id),
                  cr_document_count = int (length matching),
                  cr_document_hashes = map (\<lambda>a. hex (hash (snd a))) matching\<rparr>))"
  using assms by (simp add: get_cats_record_def get_program_def account_all_def)

section \<open>The claims\<close>

subsection \<open>Hashing\<close>

text \<open>
  Claim C7. For every byte sequence, the empty one included, the hash is computed (the
  function is total and depends on the bytes only), the digest has 32 bytes, and its
  external form is the lowercase hexadecimal text of these bytes: 64 characters, each
  0-9 or a-f, which \<open>bytes.fromhex\<close> reads back to the digest.
\<close>

theorem hash_total_32_bytes_lowercase_hex:
  "length (sha256 b) = 32
   \<and> compute_sha256_bytes b = hex (sha256 b)
   \<and> length (compute_sha256_bytes b) = 64
   \<and> list_all lower_hex_char (compute_sha256_bytes b)
   \<and> fromhex (compute_sha256_bytes b) = Some (sha256 b)"
  by (simp add: compute_sha256_bytes_def length_sha256 length_hex lower_hex_hex fromhex_hex)

theorem hash_total_32_bytes_lowercase_hex_witness:
  "length (sha256 []) = 32 \<and> length (compute_sha256_bytes []) = 64
   \<and> fromhex (compute_sha256_bytes []) = Some (sha256 [])"
  using hash_total_32_bytes_lowercase_hex [of "[]"] by blast

text \<open>
  Claim C10. \<open>verify_hash\<close> answers true exactly when the expected hash equals the
  SHA-256 hexadecimal digest of the content up to case; so it is true for the digest
  itself and for the uppercase form of the digest.
\<close>

theorem verify_hash_up_to_case:
  "(verify_hash b h \<longleftrightarrow> same_up_to_case h (compute_sha256_bytes b))
   \<and> verify_hash b (compute_sha256_bytes b)
   \<and> verify_hash b (upper (compute_sha256_bytes b))"
proof -
  have "verify_hash b h \<longleftrightarrow> lower h = lower (compute_sha256_bytes b)"
    by (auto simp: verify_hash_def Let_def)
  then have 1: "verify_hash b h \<longleftrightarrow> same_up_to_case h (compute_sha256_bytes b)"
    by (simp add: lower_eq_same)
  have 2: "verify_hash b (compute_sha256_bytes b)"
    by (simp add: verify_hash_def Let_def)
  have 3: "verify_hash b (upper (compute_sha256_bytes b))"
    by (simp add: verify_hash_def Let_def lower_upper)
  from 1 2 3 show ?thesis by blast
qed

theorem verify_hash_up_to_case_witness:
  "verify_hash [] (upper (compute_sha256_bytes [])) \<and> verify_hash [] (compute_sha256_bytes [])"
  using verify_hash_up_to_case [of "[]" "[]"] by simp

subsection \<open>Verification\<close>

text \<open>
  Claim C1. For every uploaded content (under a file name ending in .pdf, with the
  client's libraries and program loaded and the ledger answering), \<open>verify\<close> gives
  one of three outcomes, decided by the record at the address derived from the content's
  hash: no record, then not verified and no record returned; a record that is not
  modified, then verified with the message of a match with the original; a record that
  is modified, then verified with the message of the modified flag. The three messages
  differ, so the second and the third outcome are never the same signal.
\<close>

theorem verify_three_outcomes:
  assumes "suffix ''.pdf'' (lower filename)"
    and "HAS_SOLANA c" "idl_error c = None" "outage L = None"
    and "get_document_pda c (sha256 content) = Inr pda"
  shows "(map_of (accounts L) pda = None \<longrightarrow>
            verify_document c L filename content =
              Inr \<lparr>vr_verified = False, vr_hash = compute_sha256_bytes content,
                   vr_message = not_found_message, vr_document = None,
                   vr_solscan_url = None\<rparr>)
       \<and> (\<forall>a. map_of (accounts L) pda = Some a \<and> \<not> is_modified a \<longrightarrow>
            verify_document c L filename content =
              Inr \<lparr>vr_verified = True, vr_hash = compute_sha256_bytes content,
                   vr_message = verified_message,
                   vr_document = Some (document_metadata pda a),
                   vr_solscan_url = Some (get_solscan_url c pda)\<rparr>)
       \<and> (\<forall>a. map_of (accounts L) pda = Some a \<and> is_modified a \<longrightarrow>
            verify_document c L filename content =
              Inr \<lparr>vr_verified = True, vr_hash = compute_sha256_bytes content,
                   vr_message = modified_message,
                   vr_document = Some (document_metadata pda a),
                   vr_solscan_url = Some (get_solscan_url c pda)\<rparr>)
       \<and> verified_message \<noteq> modified_message
       \<and> not_found_message \<noteq> verified_message
       \<and> not_found_message \<noteq> modified_message"
proof -
  have hex: "fromhex (compute_sha256_bytes content) = Some (sha256 content)"
    by (simp add: compute_sha256_bytes_def fromhex_hex)
  have look: "get_document_by_hash c L (sha256 content) =
                Inr (map_option (document_metadata pda) (map_of (accounts L) pda))"
    using assms(2-5) by (rule get_document_by_hash_reads)
  have absent: "map_of (accounts L) pda = None \<Longrightarrow>
      verify_document c L filename content =
        Inr \<lparr>vr_verified = False, vr_hash = compute_sha256_bytes content,
             vr_message = not_found_message, vr_document = None, vr_solscan_url = None\<rparr>"
    using assms(1) by (simp add: verify_document_def Let_def hex look)
  have clean: "\<And>a. map_of (accounts L) pda = Some a \<Longrightarrow> \<not> is_modified a \<Longrightarrow>
      verify_document c L filename content =
        Inr \<lparr>vr_verified = True, vr_hash = compute_sha256_bytes content,
             vr_message = verified_message,
             vr_document = Some (document_metadata pda a),
             vr_solscan_url = Some (get_solscan_url c pda)\<rparr>"
    using assms(1) by (simp add: verify_document_def Let_def hex look document_metadata_def)
  have flagged: "\<And>a. map_of (accounts L) pda = Some a \<Longrightarrow> is_modified a \<Longrightarrow>
      verify_document c L filename content =
        Inr \<lparr>vr_verified = True, vr_hash = compute_sha256_bytes content,
             vr_message = modified_message,
             vr_document = Some (document_metadata pda a),
             vr_solscan_url = Some (get_solscan_url c pda)\<rparr>"
    using assms(1) by (simp add: verify_document_def Let_def hex look document_metadata_def)
  from absent clean flagged messages_distinct show ?thesis by blast
qed

theorem verify_three_outcomes_witness:
  "verify_document sample_client (sample_ledger [] None) ''doe.pdf'' [] =
     Inr \<lparr>vr_verified = False, vr_hash = compute_sha256_bytes [],
          vr_message = not_found_message, vr_document = None, vr_solscan_url = None\<rparr>
   \<and> verify_document sample_client
       (sample_ledger [(sample_pda (sha256 []),
          sample_record (sha256 []) ''Deposition'' None ''Doe v. State'' False)] None)
       ''doe.pdf'' [] =
     Inr \<lparr>vr_verified = True, vr_hash = compute_sha256_bytes [],
          vr_message = verified_message,
          vr_document = Some (document_metadata (sample_pda (sha256 []))
            (sample_record (sha256 []) ''Deposition'' None ''Doe v. State'' False)),
          vr_solscan_url = Some (get_solscan_url sample_client (sample_pda (sha256 [])))\<rparr>
   \<and> verify_document sample_client
       (sample_ledger [(sample_pda (sha256 []),
          sample_record (sha256 []) ''Deposition'' None ''Doe v. State'' True)] None)
       ''doe.pdf'' [] =
     Inr \<lparr>vr_verified = True, vr_hash = compute_sha256_bytes [],
          vr_message = modified_message,
          vr_document = Some (document_metadata (sample_pda (sha256 []))
            (sample_record (sha256 []) ''Deposition'' None ''Doe v. State'' True)),
          vr_solscan_url = Some (get_solscan_url sample_client (sample_pda (sha256 [])))\<rparr>"
proof -
  have c: "HAS_SOLANA sample_client" "idl_error sample_client = None"
    by (simp_all add: sample_client_def)
  have L: "\<And>accs. outage (sample_ledger accs None) = None"
    by (simp add: sample_ledger_def)
  note inst = verify_three_outcomes [OF pdf_name c L sample_document_pda]
  show ?thesis
    using inst [of "[]" "[]"]
      inst [of "[(sample_pda (sha256 []),
          sample_record (sha256 []) ''Deposition'' None ''Doe v. State'' False)]" "[]"]
      inst [of "[(sample_pda (sha256 []),
          sample_record (sha256 []) ''Deposition'' None ''Doe v. State'' True)]" "[]"]
    by (simp add: sample_ledger_def sample_record_def)
qed

subsection \<open>Ledger failures on reads\<close>

text \<open>
  Claim C4, as amended. When a ledger read raises, the read operations report no failure:
  the search returns an empty page with total 0, the lookup by hash and the CATS lookup
  return absent, and the registry statistics are all zero, which is what they return on
  an empty registry. Only a failure to load the program handle, before the read, leaves
  the operation as an exception.
\<close>

theorem reads_swallow_ledger_failure:
  assumes "HAS_SOLANA c"
  shows "(idl_error c = None \<and> outage L = Some e \<longrightarrow>
            search_documents c L page limit dt q = Inr \<lparr>items = [], total = 0\<rparr>
          \<and> (\<forall>pda. get_document_pda c h = Inr pda \<longrightarrow> get_document_by_hash c L h = Inr None)
          \<and> get_cats_record c L cats_id = Inr None
          \<and> get_registry_stats c L = Inr zero_stats)
       \<and> (idl_error c = Some e' \<longrightarrow>
            search_documents c L page limit dt q = Inl e'
          \<and> get_document_by_hash c L h = Inl e'
          \<and> get_cats_record c L cats_id = Inl e'
          \<and> get_registry_stats c L = Inl e')"
proof -
  have 1: "idl_error c = None \<Longrightarrow> outage L = Some e \<Longrightarrow>
             search_documents c L page limit dt q = Inr \<lparr>items = [], total = 0\<rparr>"
    using assms by (simp add: search_documents_def get_program_def account_all_def)
  have 2: "\<And>pda. idl_error c = None \<Longrightarrow> outage L = Some e \<Longrightarrow>
             get_document_pda c h = Inr pda \<Longrightarrow> get_document_by_hash c L h = Inr None"
    using assms by (simp add: get_document_by_hash_def get_program_def account_fetch_def)
  have 3: "idl_error c = None \<Longrightarrow> outage L = Some e \<Longrightarrow>
             get_cats_record c L cats_id = Inr None"
    using assms by (simp add: get_cats_record_def get_program_def account_all_def)
  have 4: "idl_error c = None \<Longrightarrow> outage L = Some e \<Longrightarrow>
             get_registry_stats c L = Inr zero_stats"
    using assms
    by (simp add: get_registry_stats_def get_program_def registry_fetch_def
        split: sum.splits)
  have 5: "idl_error c = Some e' \<Longrightarrow>
             search_documents c L page limit dt q = Inl e'
           \<and> get_document_by_hash c L h = Inl e'
           \<and> get_cats_record c L cats_id = Inl e'
           \<and> get_registry_stats c L = Inl e'"
    using assms
    by (simp add: search_documents_def get_document_by_hash_def get_cats_record_def
        get_registry_stats_def get_program_def)
  from 1 2 3 4 5 show ?thesis by blast
qed

theorem reads_swallow_ledger_failure_witness:
  "search_documents sample_client (sample_ledger [] (Some (RPCException ''unreachable'')))
       1 20 None None = Inr \<lparr>items = [], total = 0\<rparr>
   \<and> get_document_by_hash sample_client
       (sample_ledger [] (Some (RPCException ''unreachable''))) [1] = Inr None
   \<and> get_cats_record sample_client
       (sample_ledger [] (Some (RPCException ''unreachable''))) ''CATS-ZR-1'' = Inr None
   \<and> get_registry_stats sample_client
       (sample_ledger [] (Some (RPCException ''unreachable''))) = Inr zero_stats
   \<and> search_documents (sample_client\<lparr>idl_error := Some RuntimeError\<rparr>)
       (sample_ledger [] None) 1 20 None None = Inl RuntimeError"
proof -
  have c: "HAS_SOLANA sample_client" "idl_error sample_client = None"
    by (simp_all add: sample_client_def)
  have c': "HAS_SOLANA (sample_client\<lparr>idl_error := Some RuntimeError\<rparr>)"
    "idl_error (sample_client\<lparr>idl_error := Some RuntimeError\<rparr>) = Some RuntimeError"
    by (simp_all add: sample_client_def)
  have L: "outage (sample_ledger [] (Some (RPCException ''unreachable'')))
             = Some (RPCException ''unreachable'')"
    by (simp add: sample_ledger_def)
  show ?thesis
    using reads_swallow_ledger_failure [OF c(1),
        of "sample_ledger [] (Some (RPCException ''unreachable''))" "RPCException ''unreachable''"
           1 20 None None "[1]" "''CATS-ZR-1''" RuntimeError]
      reads_swallow_ledger_failure [OF c'(1),
        of "sample_ledger [] None" "RPCException ''unreachable''"
           1 20 None None "[1]" "''CATS-ZR-1''" RuntimeError]
      c c' L sample_document_pda [of "[1]"]
    by simp
qed

text \<open>The claim as stated fails: with the ledger unreachable, the lookup of a registered
  hash answers absent, exactly as the lookup of an unregistered hash on a reachable
  ledger does, and the search, the CATS lookup and the statistics answer empty.\<close>

theorem ledger_failure_counterexample:
  "outage (sample_ledger [(sample_pda [1],
       sample_record [1] ''Deposition'' (Some ''CATS-ZR-1'') ''Doe v. State'' False)]
       (Some (RPCException ''unreachable''))) = Some (RPCException ''unreachable'')
   \<and> get_document_by_hash sample_client
       (sample_ledger [(sample_pda [1],
          sample_record [1] ''Deposition'' (Some ''CATS-ZR-1'') ''Doe v. State'' False)]
          (Some (RPCException ''unreachable''))) [1] = Inr None
   \<and> get_document_by_hash sample_client (sample_ledger [] None) [1] = Inr None
   \<and> search_documents sample_client
       (sample_ledger [(sample_pda [1],
          sample_record [1] ''Deposition'' (Some ''CATS-ZR-1'') ''Doe v. State'' False)]
          (Some (RPCException ''unreachable''))) 1 20 None None
       = Inr \<lparr>items = [], total = 0\<rparr>
   \<and> get_cats_record sample_client
       (sample_ledger [(sample_pda [1],
          sample_record [1] ''Deposition'' (Some ''CATS-ZR-1'') ''Doe v. State'' False)]
          (Some (RPCException ''unreachable''))) ''CATS-ZR-1'' = Inr None
   \<and> get_registry_stats sample_client
       (sample_ledger [(sample_pda [1],
          sample_record [1] ''Deposition'' (Some ''CATS-ZR-1'') ''Doe v. State'' False)]
          (Some (RPCException ''unreachable''))) = Inr zero_stats"
  by (simp add: sample_ledger_def sample_client_def get_document_by_hash_def
      search_documents_def get_cats_record_def get_registry_stats_def get_program_def
      get_document_pda_def get_registry_pda_def account_fetch_def account_all_def
      registry_fetch_def)

subsection \<open>Search\<close>

lemma list_documents_reads:
  assumes "1 \<le> page" "1 \<le> limit" "limit \<le> 100"
    and "HAS_SOLANA c" "idl_error c = None" "outage L = None"
  shows "list_documents c L page limit dt q =
           Inr \<lparr>sr_documents = map (\<lambda>a. document_metadata (fst a) (snd a))
                    (clipped_slice (filtered_accounts L dt q)
                       (nat ((page - 1) * limit)) (nat (page * limit))),
                sr_total = int (length (filtered_accounts L dt q)),
                sr_page = page, sr_limit = limit,
                sr_has_more = (int (length (filtered_accounts L dt q)) > page * limit)\<rparr>"
  using assms
  by (simp add: list_documents_def search_documents_reads py_slice_page)

lemma clipped_slice_take: "clipped_slice xs 0 n = take n xs"
  unfolding clipped_slice_def
  by (rule nth_equalityI [symmetric]) (auto simp: min.commute)

lemma clipped_slice_drop: "length xs \<le> b \<Longrightarrow> clipped_slice xs a b = drop a xs"
  unfolding clipped_slice_def
  by (rule nth_equalityI [symmetric]) (auto simp: min_def)

lemma metadata_pubkey:
  "map dm_account_pubkey (map (\<lambda>a. document_metadata (fst a) (snd a)) xs) = map fst xs"
  by (induction xs) (simp_all add: document_metadata_def)

lemma distinct_metadata:
  assumes "distinct (map fst xs)"
  shows "distinct (map (\<lambda>a. document_metadata (fst a) (snd a)) xs)"
proof -
  from assms have "distinct (map dm_account_pubkey (map (\<lambda>a. document_metadata (fst a) (snd a)) xs))"
    by (simp only: metadata_pubkey)
  then show ?thesis by (auto simp: distinct_map intro: inj_on_imageI2)
qed

lemma pages_disjoint:
  assumes "distinct (map fst xs)"
  shows "set (map (\<lambda>a. document_metadata (fst a) (snd a)) (take n xs))
           \<inter> set (map (\<lambda>a. document_metadata (fst a) (snd a)) (drop n xs)) = {}"
proof -
  have "distinct (map (\<lambda>a. document_metadata (fst a) (snd a)) (take n xs @ drop n xs))"
    using assms by (simp add: distinct_metadata)
  then show ?thesis by (simp only: map_append distinct_append)
qed

text \<open>
  Claim C5. For every page of at least 1 and every limit from 1 to 100 (with the client's
  libraries and program loaded and the ledger answering), the search returns as total the
  size of the filtered record set, as items the slice from \<open>(page - 1) * limit\<close> to
  \<open>page * limit\<close> of the filtered set clipped to its bounds, and \<open>has_more\<close> exactly
  when the total exceeds \<open>page * limit\<close>. Over a filtered set of 25 records, pages 1
  and 2 with limit 20 return 20 and 5 items that together are the 25 records in order,
  disjoint when the records' addresses are distinct, with \<open>has_more\<close> true and then
  false.
\<close>

theorem search_pagination:
  assumes "HAS_SOLANA c" "idl_error c = None" "outage L = None"
  shows "(1 \<le> page \<and> 1 \<le> limit \<and> limit \<le> 100 \<longrightarrow>
            list_documents c L page limit dt q =
              Inr \<lparr>sr_documents = map (\<lambda>a. document_metadata (fst a) (snd a))
                       (clipped_slice (filtered_accounts L dt q)
                          (nat ((page - 1) * limit)) (nat (page * limit))),
                   sr_total = int (length (filtered_accounts L dt q)),
                   sr_page = page, sr_limit = limit,
                   sr_has_more = (int (length (filtered_accounts L dt q)) > page * limit)\<rparr>)
       \<and> (length (filtered_accounts L dt q) = 25 \<longrightarrow>
            (\<exists>r1 r2. list_documents c L 1 20 dt q = Inr r1
               \<and> list_documents c L 2 20 dt q = Inr r2
               \<and> sr_documents r1 @ sr_documents r2 =
                   map (\<lambda>a. document_metadata (fst a) (snd a)) (filtered_accounts L dt q)
               \<and> length (sr_documents r1) = 20 \<and> length (sr_documents r2) = 5
               \<and> sr_total r1 = 25 \<and> sr_total r2 = 25
               \<and> sr_has_more r1 \<and> \<not> sr_has_more r2
               \<and> (distinct (map fst (filtered_accounts L dt q)) \<longrightarrow>
                    set (sr_documents r1) \<inter> set (sr_documents r2) = {})))"
proof -
  let ?f = "filtered_accounts L dt q"
  let ?m = "map (\<lambda>a. document_metadata (fst a) (snd a))"
  have general: "1 \<le> page \<Longrightarrow> 1 \<le> limit \<Longrightarrow> limit \<le> 100 \<Longrightarrow>
      list_documents c L page limit dt q =
        Inr \<lparr>sr_documents = ?m (clipped_slice ?f (nat ((page - 1) * limit)) (nat (page * limit))),
             sr_total = int (length ?f), sr_page = page, sr_limit = limit,
             sr_has_more = (int (length ?f) > page * limit)\<rparr>"
    by (rule list_documents_reads [OF _ _ _ assms])
  have pages: "\<exists>r1 r2. list_documents c L 1 20 dt q = Inr r1
               \<and> list_documents c L 2 20 dt q = Inr r2
               \<and> sr_documents r1 @ sr_documents r2 = ?m ?f
               \<and> length (sr_documents r1) = 20 \<and> length (sr_documents r2) = 5
               \<and> sr_total r1 = 25 \<and> sr_total r2 = 25
               \<and> sr_has_more r1 \<and> \<not> sr_has_more r2
               \<and> (distinct (map fst ?f) \<longrightarrow> set (sr_documents r1) \<inter> set (sr_documents r2) = {})"
    if len: "length ?f = 25"
  proof -
    have p1: "list_documents c L 1 20 dt q =
        Inr \<lparr>sr_documents = ?m (take 20 ?f), sr_total = 25, sr_page = 1, sr_limit = 20,
             sr_has_more = True\<rparr>"
      using list_documents_reads [OF _ _ _ assms, of 1 20 dt q] len
      by (simp add: clipped_slice_take)
    have p2: "list_documents c L 2 20 dt q =
        Inr \<lparr>sr_documents = ?m (drop 20 ?f), sr_total = 25, sr_page = 2, sr_limit = 20,
             sr_has_more = False\<rparr>"
      using list_documents_reads [OF _ _ _ assms, of 2 20 dt q] len
      by (simp add: clipped_slice_drop)
    have cat: "?m (take 20 ?f) @ ?m (drop 20 ?f) = ?m ?f"
      by (simp only: map_append [symmetric] append_take_drop_id)
    have dis: "distinct (map fst ?f) \<Longrightarrow> set (?m (take 20 ?f)) \<inter> set (?m (drop 20 ?f)) = {}"
      by (rule pages_disjoint)
    from p1 p2 cat dis len show ?thesis by simp
  qed
  from general pages show ?thesis by blast
qed

lemma length_sample_25: "length sample_25 = 25"
  by (simp add: sample_25_def)

theorem search_pagination_witness:
  "(\<exists>r1 r2. list_documents sample_client (sample_ledger sample_25 None) 1 20 None None = Inr r1
      \<and> list_documents sample_client (sample_ledger sample_25 None) 2 20 None None = Inr r2
      \<and> length (sr_documents r1) = 20 \<and> length (sr_documents r2) = 5
      \<and> sr_total r1 = 25 \<and> sr_total r2 = 25 \<and> sr_has_more r1 \<and> \<not> sr_has_more r2)
   \<and> list_documents sample_client (sample_ledger sample_25 None) 3 10 None None =
       Inr \<lparr>sr_documents = map (\<lambda>a. document_metadata (fst a) (snd a))
                (clipped_slice sample_25 20 30),
            sr_total = 25, sr_page = 3, sr_limit = 10, sr_has_more = False\<rparr>"
proof -
  have c: "HAS_SOLANA sample_client" "idl_error sample_client = None"
    by (simp_all add: sample_client_def)
  have L: "outage (sample_ledger sample_25 None) = None"
    by (simp add: sample_ledger_def)
  have f: "filtered_accounts (sample_ledger sample_25 None) None None = sample_25"
    by (simp add: filtered_accounts_def type_filter_def query_filter_def sample_ledger_def)
  show ?thesis
    using search_pagination [OF c L, of 3 10 None None] f length_sample_25
    by auto
qed







subsection \<open>CATS lookup\<close>

lemma resolve_zr: "prefix ''CATS-ZR'' s \<Longrightarrow> resolve_property property_map s = ''Zorro Ranch''"
  by (simp add: property_map_def)

lemma resolve_lsj:
  "prefix ''CATS-LSJ'' s \<Longrightarrow> resolve_property property_map s = ''Little St. James''"
  by (auto simp: property_map_def prefix_def)

lemma resolve_nyc: "prefix ''CATS-NYC'' s \<Longrightarrow> resolve_property property_map s = ''New York''"
  by (auto simp: property_map_def prefix_def)

lemma resolve_unknown:
  "\<not> prefix ''CATS-ZR'' s \<Longrightarrow> \<not> prefix ''CATS-LSJ'' s \<Longrightarrow> \<not> prefix ''CATS-NYC'' s
     \<Longrightarrow> resolve_property property_map s = ''Unknown Property''"
  by (simp add: property_map_def)

text \<open>
  Claim C9. For every CATS identifier (with the client's libraries and program loaded and
  the ledger answering), the lookup returns absent when no record has exactly that CATS
  number; otherwise it returns a record whose document count is the number of matching
  records, whose hash list holds the hashes of exactly the matching records, and whose
  property name is resolved through the fixed table of prefixes, an identifier with none
  of the prefixes giving "Unknown Property"; the name is never missing.
\<close>

theorem cats_lookup:
  assumes "HAS_SOLANA c" "idl_error c = None" "outage L = None"
  shows "((\<forall>a \<in> set (accounts L). cats_number (snd a) \<noteq> Some cats_id) \<longrightarrow>
            get_cats_record c L cats_id = Inr None)
       \<and> ((\<exists>a \<in> set (accounts L). cats_number (snd a) = Some cats_id) \<longrightarrow>
            get_cats_record c L cats_id =
              Inr (Some
                \<lparr>cr_cats_id = cats_id,
                 cr_property_name = Some (resolve_property property_map cats_id),
                 cr_document_count =
                   int (length (filter (\<lambda>a. cats_number (snd a) = Some cats_id) (accounts L))),
                 cr_document_hashes =
                   map (\<lambda>a. hex (hash (snd a)))
                     (filter (\<lambda>a. cats_number (snd a) = Some cats_id) (accounts L))\<rparr>))
       \<and> (prefix ''CATS-ZR'' cats_id \<longrightarrow>
            resolve_property property_map cats_id = ''Zorro Ranch'')
       \<and> (prefix ''CATS-LSJ'' cats_id \<longrightarrow>
            resolve_property property_map cats_id = ''Little St. James'')
       \<and> (prefix ''CATS-NYC'' cats_id \<longrightarrow>
            resolve_property property_map cats_id = ''New York'')
       \<and> ((\<forall>k \<in> set (map fst property_map). \<not> prefix k cats_id) \<longrightarrow>
            resolve_property property_map cats_id = ''Unknown Property'')"
proof -
  let ?m = "filter (\<lambda>a. cats_number (snd a) = Some cats_id) (accounts L)"
  have none: "\<forall>a \<in> set (accounts L). cats_number (snd a) \<noteq> Some cats_id \<Longrightarrow>
      get_cats_record c L cats_id = Inr None"
  proof -
    assume "\<forall>a \<in> set (accounts L). cats_number (snd a) \<noteq> Some cats_id"
    then have "?m = []" by (simp add: filter_empty_conv)
    then show ?thesis using get_cats_record_reads [OF assms, of cats_id] by simp
  qed
  have some: "\<exists>a \<in> set (accounts L). cats_number (snd a) = Some cats_id \<Longrightarrow>
      get_cats_record c L cats_id =
        Inr (Some \<lparr>cr_cats_id = cats_id,
                   cr_property_name = Some (resolve_property property_map cats_id),
                   cr_document_count = int (length ?m),
                   cr_document_hashes = map (\<lambda>a. hex (hash (snd a))) ?m\<rparr>)"
  proof -
    assume "\<exists>a \<in> set (accounts L). cats_number (snd a) = Some cats_id"
    then have "?m \<noteq> []" by (simp add: filter_empty_conv)
    then show ?thesis using get_cats_record_reads [OF assms, of cats_id] by (simp add: Let_def)
  qed
  have unknown: "\<forall>k \<in> set (map fst property_map). \<not> prefix k cats_id \<Longrightarrow>
      resolve_property property_map cats_id = ''Unknown Property''"
    by (rule resolve_unknown) (simp_all add: property_map_def)
  from none some resolve_zr resolve_lsj resolve_nyc unknown show ?thesis by blast
qed

theorem cats_lookup_witness:
  "get_cats_record sample_client
     (sample_ledger
        [(sample_pda [1], sample_record [1] ''Deposition'' (Some ''CATS-ZR-1'') ''A'' False),
         (sample_pda [2], sample_record [2] ''Deposition'' (Some ''CATS-X-9'') ''B'' False),
         (sample_pda [3], sample_record [3] ''Deposition'' (Some ''CATS-ZR-1'') ''C'' False)]
        None) ''CATS-ZR-1'' =
     Inr (Some \<lparr>cr_cats_id = ''CATS-ZR-1'', cr_property_name = Some ''Zorro Ranch'',
                cr_document_count = 2, cr_document_hashes = [hex [1], hex [3]]\<rparr>)
   \<and> get_cats_record sample_client
     (sample_ledger
        [(sample_pda [1], sample_record [1] ''Deposition'' (Some ''CATS-ZR-1'') ''A'' False),
         (sample_pda [2], sample_record [2] ''Deposition'' (Some ''CATS-X-9'') ''B'' False),
         (sample_pda [3], sample_record [3] ''Deposition'' (Some ''CATS-ZR-1'') ''C'' False)]
        None) ''CATS-X-9'' =
     Inr (Some \<lparr>cr_cats_id = ''CATS-X-9'', cr_property_name = Some ''Unknown Property'',
                cr_document_count = 1, cr_document_hashes = [hex [2]]\<rparr>)
   \<and> get_cats_record sample_client
     (sample_ledger
        [(sample_pda [1], sample_record [1] ''Deposition'' (Some ''CATS-ZR-1'') ''A'' False),
         (sample_pda [2], sample_record [2] ''Deposition'' (Some ''CATS-X-9'') ''B'' False),
         (sample_pda [3], sample_record [3] ''Deposition'' (Some ''CATS-ZR-1'') ''C'' False)]
        None) ''CATS-ZR'' = Inr None"
proof -
  have c: "HAS_SOLANA sample_client" "idl_error sample_client = None"
    by (simp_all add: sample_client_def)
  have L: "\<And>accs. outage (sample_ledger accs None) = None"
    by (simp add: sample_ledger_def)
  let ?accs =
    "[(sample_pda [1], sample_record [1] ''Deposition'' (Some ''CATS-ZR-1'') ''A'' False),
      (sample_pda [2], sample_record [2] ''Deposition'' (Some ''CATS-X-9'') ''B'' False),
      (sample_pda [3], sample_record [3] ''Deposition'' (Some ''CATS-ZR-1'') ''C'' False)]"
  note inst = cats_lookup [OF c L]
  show ?thesis
    using inst [of ?accs "''CATS-ZR-1''"] inst [of ?accs "''CATS-X-9''"]
      inst [of ?accs "''CATS-ZR''"]
    by (simp add: sample_ledger_def sample_record_def property_map_def)
qed

subsection \<open>Registration\<close>








subsection \<open>Flagging\<close>

lemma no_flag_method: "getattr ''flag_document_modification'' =
    Inl (AttributeError ''flag_document_modification'')"
  by (simp add: getattr_def SolanaClient_attributes_def)

text \<open>
  Claim C3 asks that flagging fails with NotFound without a record, with InvalidInput for
  equal hashes, and otherwise sets the modification flag and increments the count. The
  endpoint does none of this: the client has no \<open>flag_document_modification\<close>, so
  every request ends in the answer 500 and the ledger is never written, also for a
  registered original hash and a different new hash.
\<close>

theorem flag_modification_always_fails:
  "flag_modification c L request =
     (Inl (HTTPException 500 (Failed ''Flagging failed: ''
        (case fromhex (original_hash request) of
           None \<Rightarrow> ValueError
         | Some original_bytes \<Rightarrow>
             (case fromhex (new_hash request) of
                None \<Rightarrow> ValueError
              | Some new_bytes \<Rightarrow> AttributeError ''flag_document_modification'')))), L)
   \<and> flag_modification sample_client
       (sample_ledger [(sample_pda [1],
          sample_record [1] ''Deposition'' None ''Doe v. State'' False)] None)
       \<lparr>original_hash = ''01'', new_hash = ''02'', evidence_description = ''page 3 differs''\<rparr> =
     (Inl (HTTPException 500 (Failed ''Flagging failed: ''
        (AttributeError ''flag_document_modification''))),
      sample_ledger [(sample_pda [1],
          sample_record [1] ''Deposition'' None ''Doe v. State'' False)] None)"
proof -
  have general: "\<And>c L request. flag_modification c L request =
     (Inl (HTTPException 500 (Failed ''Flagging failed: ''
        (case fromhex (original_hash request) of
           None \<Rightarrow> ValueError
         | Some original_bytes \<Rightarrow>
             (case fromhex (new_hash request) of
                None \<Rightarrow> ValueError
              | Some new_bytes \<Rightarrow> AttributeError ''flag_document_modification'')))), L)"
    by (simp add: flag_modification_def no_flag_method split: option.splits)
  have h1: "fromhex ''01'' = Some [1]" by (simp add: digit_value_def is_space_def)
  have h2: "fromhex ''02'' = Some [2]" by (simp add: digit_value_def is_space_def)
  show ?thesis
    by (simp add: general h1 h2 del: fromhex.simps)
qed

subsection \<open>Address derivation\<close>

text \<open>The document address is computed from the program id and the hash alone, without
  reading the ledger. Distinct hashes give distinct addresses as far as
  \<open>find_program_address\<close> separates distinct seed lists, which is a property of the
  library's hash and not of this code.\<close>

lemma get_document_pda_injective:
  assumes "\<And>s s' p p'. find_program_address c s (program_id c) = Inr p \<Longrightarrow>
             find_program_address c s' (program_id c) = Inr p' \<Longrightarrow> fst p = fst p' \<Longrightarrow> s = s'"
    and "get_document_pda c h1 = Inr a" "get_document_pda c h2 = Inr a"
  shows "h1 = h2"
proof -
  from assms(2) obtain p where p: "find_program_address c [ascii_bytes ''document'', h1]
      (program_id c) = Inr p" "fst p = a"
    by (auto simp: get_document_pda_def split: sum.splits)
  from assms(3) obtain p' where p': "find_program_address c [ascii_bytes ''document'', h2]
      (program_id c) = Inr p'" "fst p' = a"
    by (auto simp: get_document_pda_def split: sum.splits)
  from assms(1) [OF p(1) p'(1)] p(2) p'(2) show ?thesis by simp
qed

end
